theory Spec2Isabelle
  imports Main "HOL-Library.Word"
begin

section \<open>The wallet service bootstrap (service/service.cpp)\<close>

text \<open>
  The file holds two things: the class \<open>WalletService\<close>, whose only method builds the
  per-connection \<open>ServiceClient\<close>, and \<open>main\<close>, which parses the options, prepares the
  logger, the reactor and the server and runs the reactor inside one try block.

  Everything \<open>main\<close> calls lives outside the file (boost::program_options, the logger,
  the reactor, the rules, ...). The record \<open>env\<close> below holds what each of those calls
  answers; a theorem about \<open>main\<close> is stated for every \<open>env\<close>. A call that stands as a
  statement of its own may throw (its answer is a sum, \<open>Inl\<close> the exception); the
  getters used inside an expression are total.
\<close>

subsection \<open>Exceptions, outcomes and the trace of effects\<close>

text \<open>What the two catch clauses of \<open>main\<close> tell apart: an exception derived from
  \<open>std::exception\<close> (with its \<open>what()\<close>), or anything else.\<close>

datatype exn = std_exception string | non_std_exception

text \<open>How the process ends: \<open>main\<close> returns a status, an exception leaves \<open>main\<close>
  (\<open>std::terminate\<close>), or \<open>run()\<close> never returns.\<close>

datatype outcome = Exit int | Terminate exn | Blocked

datatype 'a flow = Next 'a | Leave outcome | Throw exn

text \<open>The operands streamed into a log line with \<open><<\<close>.\<close>

datatype frag = Txt string | Num nat | Flag bool

text \<open>An option as \<open>desc.add_options()\<close> declares it: the name, the value it takes
  (with the default, when one is given) and the help line.\<close>

datatype value_semantic =
    untyped_value
  | typed_uint16 "16 word option"
  | typed_uint32 "32 word option"
  | typed_string "string option"
  | typed_Nonnegative_uint32 "32 word option"
  | bool_switch bool

record option_description =
  long_name :: string
  semantic :: value_semantic
  description :: string

datatype variable_value =
    any_empty
  | any_uint16 "16 word"
  | any_uint32 "32 word"
  | any_string string
  | any_bool bool

type_synonym variables_map = "string \<rightharpoonup> variable_value"

text \<open>\<open>std::map::count\<close>: 1 when the key is present, 0 otherwise.\<close>

definition count_vm :: "variables_map \<Rightarrow> string \<Rightarrow> nat" where
  "count_vm vm k = (case vm k of None \<Rightarrow> 0 | Some _ \<Rightarrow> 1)"

text \<open>\<open>io::Address\<close> is declared outside the file; only its identity matters here.\<close>

type_synonym io_Address = nat

text \<open>The local struct \<open>options\<close> of \<open>main\<close>.\<close>

record options =
  port :: "16 word"
  nodeURI :: string
  pollPeriod_ms :: "32 word"
  logCleanupPeriod :: "32 word"
  allowedOrigin :: string
  withPipes :: bool
  withAssets :: bool

datatype event =
    Ev_system_complete string
  | Ev_Logger_create string string
  | Ev_activateCrashLog
  | Ev_store_command_line "string list"
  | Ev_cout "option_description list"
  | Ev_ReadCfgFromFileCommon
  | Ev_ReadCfgFromFile string
  | Ev_notify
  | Ev_clean_old_logfiles string string "32 word"
  | Ev_getRulesOptions
  | Ev_UpdateChecksum
  | Ev_LOG_INFO "frag list"
  | Ev_LOG_ERROR "frag list"
  | Ev_SafeReactor_create
  | Ev_Reactor_Scope
  | Ev_GracefulIntHandler
  | Ev_LogRotation "32 word" "32 word"
  | Ev_WalletService bool io_Address "16 word" string bool
  | Ev_run

datatype run_result = Returns | Throws exn | Never_returns

subsection \<open>The environment: constants and calls declared outside the file\<close>

text \<open>The option names of \<open>utility/cli/options.h\<close>.\<close>

record cli_names =
  HELP :: string
  HELP_FULL :: string
  PORT_FULL :: string
  NODE_ADDR :: string
  NODE_ADDR_FULL :: string
  ALLOWED_ORIGIN :: string
  LOG_CLEANUP_DAYS :: string
  NODE_POLL_PERIOD :: string
  WITH_SYNC_PIPES :: string
  WITH_ASSETS :: string

record env =
  cli :: cli_names
  argv :: "string list"
  system_complete :: "string \<Rightarrow> exn + string"
  getCurrentPID_to_string :: string
  Logger_create :: "string \<Rightarrow> string \<Rightarrow> exn + unit"
  activateCrashLog :: "exn + unit"
  createRulesOptionsDescription :: "option_description list"
  store_command_line :: "string list \<Rightarrow> option_description list \<Rightarrow> exn + variables_map"
  ReadCfgFromFileCommon :: "variables_map \<Rightarrow> option_description list \<Rightarrow> exn + variables_map"
  ReadCfgFromFile :: "variables_map \<Rightarrow> option_description list \<Rightarrow> string \<Rightarrow> exn + variables_map"
  notify :: "variables_map \<Rightarrow> exn + options"
  days2sec :: "32 word \<Rightarrow> 32 word"
  clean_old_logfiles :: "string \<Rightarrow> string \<Rightarrow> 32 word \<Rightarrow> exn + unit"
  getRulesOptions :: "variables_map \<Rightarrow> exn + unit"
  UpdateChecksum :: "exn + unit"
  PROJECT_VERSION :: string
  BRANCH_NAME :: string
  get_SignatureStr :: string
  current_path :: string
  NDEBUG :: bool
  resolve :: "string \<Rightarrow> io_Address option"
  SafeReactor_create :: "exn + unit"
  Reactor_Scope :: "exn + unit"
  GracefulIntHandler :: "exn + unit"
  sec2readable :: "32 word \<Rightarrow> string"
  LogRotation :: "32 word \<Rightarrow> 32 word \<Rightarrow> exn + unit"
  WalletService_ctor :: "bool \<Rightarrow> io_Address \<Rightarrow> 16 word \<Rightarrow> string \<Rightarrow> bool \<Rightarrow> exn + unit"
  run :: run_result

subsection \<open>Sequencing statements\<close>

type_synonym 'a step = "event list \<Rightarrow> 'a flow \<times> event list"

definition and_then :: "'a step \<Rightarrow> ('a \<Rightarrow> 'b step) \<Rightarrow> 'b step" where
  "and_then m f tr =
     (case m tr of
        (Next a, tr') \<Rightarrow> f a tr'
      | (Leave out, tr') \<Rightarrow> (Leave out, tr')
      | (Throw e, tr') \<Rightarrow> (Throw e, tr'))"

definition emit :: "event \<Rightarrow> unit step" where
  "emit ev tr = (Next (), tr @ [ev])"

text \<open>A call of an outside function: the call is recorded, then it returns or throws.\<close>

definition call :: "event \<Rightarrow> exn + 'a \<Rightarrow> 'a step" where
  "call ev r tr = (case r of Inl e \<Rightarrow> (Throw e, tr @ [ev]) | Inr a \<Rightarrow> (Next a, tr @ [ev]))"

definition return_from_main :: "int \<Rightarrow> 'a step" where
  "return_from_main rc tr = (Leave (Exit rc), tr)"

subsection \<open>main\<close>

definition LOG_FILES_DIR :: string where
  "LOG_FILES_DIR = ''logs''"

definition LOG_FILES_PREFIX :: string where
  "LOG_FILES_PREFIX = ''service_''"

definition LOG_ROTATION_PERIOD_SEC :: "32 word" where
  "LOG_ROTATION_PERIOD_SEC = 12 * 60 * 60"

text \<open>Lines 101 to 113: the options \<open>main\<close> declares, then those of
  \<open>createRulesOptionsDescription()\<close>.\<close>

definition desc :: "env \<Rightarrow> option_description list" where
  "desc E =
     [\<lparr>long_name = HELP_FULL (cli E), semantic = untyped_value,
        description = ''list of all options''\<rparr>,
      \<lparr>long_name = PORT_FULL (cli E), semantic = typed_uint16 (Some 8080),
        description = ''port to start server on''\<rparr>,
      \<lparr>long_name = NODE_ADDR_FULL (cli E), semantic = typed_string None,
        description = ''address of node''\<rparr>,
      \<lparr>long_name = ALLOWED_ORIGIN (cli E), semantic = typed_string (Some ''''),
        description = ''allowed origin''\<rparr>,
      \<lparr>long_name = LOG_CLEANUP_DAYS (cli E), semantic = typed_uint32 (Some 5),
        description = ''old logfiles cleanup period(days)''\<rparr>,
      \<lparr>long_name = NODE_POLL_PERIOD (cli E), semantic = typed_Nonnegative_uint32 (Some 0),
        description = ''Node poll period in milliseconds. Set to 0 to keep connection. Anyway poll period would be no less than the expected rate of blocks if it is less then it will be rounded up to block rate value.''\<rparr>,
      \<lparr>long_name = WITH_SYNC_PIPES (cli E), semantic = bool_switch False,
        description = ''enable sync pipes''\<rparr>,
      \<lparr>long_name = WITH_ASSETS (cli E), semantic = bool_switch False,
        description = ''enable confidential assets transactions''\<rparr>]
     @ createRulesOptionsDescription E"

text \<open>Lines 77 to 83, before the try block: an exception here leaves \<open>main\<close>.\<close>

definition main_prologue :: "env \<Rightarrow> unit step" where
  "main_prologue E =
     and_then (call (Ev_system_complete LOG_FILES_DIR) (system_complete E LOG_FILES_DIR)) (\<lambda>path.
     and_then (call (Ev_Logger_create (LOG_FILES_PREFIX @ getCurrentPID_to_string E @ ''_'') path)
                 (Logger_create E (LOG_FILES_PREFIX @ getCurrentPID_to_string E @ ''_'') path)) (\<lambda>_.
     call Ev_activateCrashLog (activateCrashLog E)))"

text \<open>Lines 87 to 171: the body of the try block. \<open>notify E vm\<close> is the struct
  \<open>options\<close> as \<open>vm.notify()\<close> leaves it.\<close>

definition main_try :: "env \<Rightarrow> unit step" where
  "main_try E =
     and_then (call (Ev_store_command_line (argv E)) (store_command_line E (argv E) (desc E))) (\<lambda>vm0.
     if count_vm vm0 (HELP (cli E)) \<noteq> 0
     then and_then (emit (Ev_cout (desc E))) (\<lambda>_. return_from_main 0)
     else
     and_then (call Ev_ReadCfgFromFileCommon (ReadCfgFromFileCommon E vm0 (desc E))) (\<lambda>vm1.
     and_then (call (Ev_ReadCfgFromFile ''wallet-api.cfg'')
                 (ReadCfgFromFile E vm1 (desc E) ''wallet-api.cfg'')) (\<lambda>vm.
     and_then (call Ev_notify (notify E vm)) (\<lambda>options.
     and_then (call (Ev_clean_old_logfiles LOG_FILES_DIR LOG_FILES_PREFIX
                      (days2sec E (logCleanupPeriod options)))
                 (clean_old_logfiles E LOG_FILES_DIR LOG_FILES_PREFIX
                      (days2sec E (logCleanupPeriod options)))) (\<lambda>_.
     and_then (call Ev_getRulesOptions (getRulesOptions E vm)) (\<lambda>_.
     and_then (call Ev_UpdateChecksum (UpdateChecksum E)) (\<lambda>_.
     and_then (emit (Ev_LOG_INFO [Txt ''Beam Wallet API Service '', Txt (PROJECT_VERSION E),
                                  Txt '' ('', Txt (BRANCH_NAME E), Txt '')''])) (\<lambda>_.
     and_then (emit (Ev_LOG_INFO [Txt ''Rules signature: '', Txt (get_SignatureStr E)])) (\<lambda>_.
     and_then (emit (Ev_LOG_INFO [Txt ''Current folder is '', Txt (current_path E)])) (\<lambda>_.
     and_then (emit (Ev_LOG_INFO [Txt (if NDEBUG E then ''Log mode: Non-Debug''
                                       else ''Log mode: Debug'')])) (\<lambda>_.
     if count_vm vm (NODE_ADDR (cli E)) = 0
     then and_then (emit (Ev_LOG_ERROR [Txt ''node address should be specified'']))
            (\<lambda>_. return_from_main (- 1))
     else
     case resolve E (nodeURI options) of
       None \<Rightarrow>
         and_then (emit (Ev_LOG_ERROR [Txt ''unable to resolve node address: `'',
                                       Txt (nodeURI options), Txt ''`'']))
           (\<lambda>_. return_from_main (- 1))
     | Some node_addr \<Rightarrow>
     and_then (call Ev_SafeReactor_create (SafeReactor_create E)) (\<lambda>_.
     and_then (call Ev_Reactor_Scope (Reactor_Scope E)) (\<lambda>_.
     and_then (call Ev_GracefulIntHandler (GracefulIntHandler E)) (\<lambda>_.
     and_then (call (Ev_LogRotation LOG_ROTATION_PERIOD_SEC (days2sec E (logCleanupPeriod options)))
                 (LogRotation E LOG_ROTATION_PERIOD_SEC (days2sec E (logCleanupPeriod options)))) (\<lambda>_.
     and_then (emit (Ev_LOG_INFO [Txt ''Log rotation: '', Txt (sec2readable E LOG_ROTATION_PERIOD_SEC),
                                  Txt ''. Log cleanup: '', Num (unat (logCleanupPeriod options)),
                                  Txt '' days.''])) (\<lambda>_.
     and_then (emit (Ev_LOG_INFO [Txt ''Starting server on port '', Num (unat (port options)),
                                  Txt '', sync pipes '', Flag (withPipes options)])) (\<lambda>_.
     and_then (call (Ev_WalletService (withAssets options) node_addr (port options)
                      (allowedOrigin options) (withPipes options))
                 (WalletService_ctor E (withAssets options) node_addr (port options)
                      (allowedOrigin options) (withPipes options))) (\<lambda>_.
     and_then (emit Ev_run) (\<lambda>_.
     case run E of
       Returns \<Rightarrow> emit (Ev_LOG_INFO [Txt ''Done''])
     | Throws e \<Rightarrow> (\<lambda>tr. (Throw e, tr))
     | Never_returns \<Rightarrow> (\<lambda>tr. (Leave Blocked, tr)))))))))))))))))))))"

text \<open>Lines 72 to 183: the prologue, the try block, the two handlers and the final
  \<open>return 0\<close>, which the normal end of the try block and both handlers reach.\<close>

definition main :: "env \<Rightarrow> outcome \<times> event list" where
  "main E =
     (case main_prologue E [] of
        (Throw e, tr) \<Rightarrow> (Terminate e, tr)
      | (Leave out, tr) \<Rightarrow> (out, tr)
      | (Next _, tr) \<Rightarrow>
          (case main_try E tr of
             (Next _, tr') \<Rightarrow> (Exit 0, tr')
           | (Leave out, tr') \<Rightarrow> (out, tr')
           | (Throw (std_exception what), tr') \<Rightarrow>
               (Exit 0, tr' @ [Ev_LOG_ERROR [Txt ''EXCEPTION: '', Txt what]])
           | (Throw non_std_exception, tr') \<Rightarrow>
               (Exit 0, tr' @ [Ev_LOG_ERROR [Txt ''NON_STD EXCEPTION'']])))"

text \<open>The line each handler logs for the exception it caught.\<close>

definition handler_message :: "exn \<Rightarrow> frag list" where
  "handler_message e =
     (case e of
        std_exception what \<Rightarrow> [Txt ''EXCEPTION: '', Txt what]
      | non_std_exception \<Rightarrow> [Txt ''NON_STD EXCEPTION''])"

text \<open>What \<open>main\<close> makes of the end of the try block: the tail of its definition.\<close>

definition finish :: "unit flow \<times> event list \<Rightarrow> outcome \<times> event list" where
  "finish res =
     (case res of
        (Next _, tr) \<Rightarrow> (Exit 0, tr)
      | (Leave out, tr) \<Rightarrow> (out, tr)
      | (Throw e, tr) \<Rightarrow> (Exit 0, tr @ [Ev_LOG_ERROR (handler_message e)]))"

text \<open>\<open>ensures Q res\<close> is \<open>Q res\<close>; the constant marks the result a proof runs
  symbolically, one statement of \<open>main\<close> at a time.\<close>

definition ensures :: "('a flow \<times> event list \<Rightarrow> bool) \<Rightarrow> 'a flow \<times> event list \<Rightarrow> bool" where
  "ensures Q res \<longleftrightarrow> Q res"

text \<open>The environment \<open>E\<close> with another value parsed into \<open>options.pollPeriod_ms\<close>.\<close>

definition with_pollPeriod_ms :: "32 word \<Rightarrow> env \<Rightarrow> env" where
  "with_pollPeriod_ms p E =
     E\<lparr>notify := (\<lambda>vm. case notify E vm of
                          Inl e \<Rightarrow> Inl e
                        | Inr opts \<Rightarrow> Inr (opts\<lparr>pollPeriod_ms := p\<rparr>))\<rparr>"

subsection \<open>The reactor loop\<close>

text \<open>
  Modelled from the spec: \<open>io::Reactor::run\<close> and \<open>io::Reactor::GracefulIntHandler\<close>
  are declared outside service.cpp. The spec (4.1, 4.5, 7e): \<open>run()\<close> blocks until
  \<open>stop()\<close> is invoked or no outstanding work remains; on an interrupt or termination
  signal the installed handler calls \<open>stop()\<close>; an exception escaping a callback leaves
  the loop. The loop is given the events that reach it, in order; when they are used up
  and nothing stopped it, it is still blocked.
\<close>

datatype loop_event = Callback "exn option" | Signal | No_work_left

fun Reactor_run :: "loop_event list \<Rightarrow> run_result" where
  "Reactor_run [] = Never_returns"
| "Reactor_run (Signal # _) = Returns"
| "Reactor_run (No_work_left # _) = Returns"
| "Reactor_run (Callback None # evs) = Reactor_run evs"
| "Reactor_run (Callback (Some e) # _) = Throws e"

subsection \<open>class WalletService\<close>

text \<open>
  Modelled from the spec: the types \<open>WalletMap\<close>, \<open>SendFunc\<close> and \<open>ServiceClient\<close> and
  the base class \<open>WebSocketServer\<close> are declared outside service.cpp. The spec (3, 4.2):
  the registry maps a session key to a wallet session record; a handler is built from
  the feature flag, the node address, the send function of its connection and a
  reference to the shared registry. Objects live in a store, at addresses, and a
  reference to the member \<open>_walletMap\<close> of a server is the address of that server. Of
  the base class the model keeps what line 51 passes to its constructor.
\<close>

type_synonym ref = nat

type_synonym SendFunc = nat

type_synonym WalletMap = "string \<rightharpoonup> nat"

record ServiceClient =
  sc_withAssets :: bool
  sc_nodeAddr :: io_Address
  sc_wsSend :: SendFunc
  sc_walletMap :: ref

record WebSocketServer =
  ws_port :: "16 word"
  ws_title :: string
  ws_withPipes :: bool
  ws_allowedOrigin :: string

text \<open>Lines 45 to 69: \<open>WalletService\<close> extends \<open>WebSocketServer\<close> by three members
  (\<open>_withAssets\<close>, \<open>_nodeAddr\<close>, \<open>_walletMap\<close>). The wallet map is a member by value: it
  is part of the server object and lives exactly as long as it.\<close>

record WalletService = WebSocketServer +
  m_withAssets :: bool
  m_nodeAddr :: io_Address
  m_walletMap :: WalletMap

text \<open>Lines 49 to 55: the constructor; \<open>_walletMap\<close> is default-constructed, empty.\<close>

definition WalletService_new ::
  "bool \<Rightarrow> io_Address \<Rightarrow> 16 word \<Rightarrow> string \<Rightarrow> bool \<Rightarrow> WalletService" where
  "WalletService_new withAssets' nodeAddr port' allowedOrigin' withPipes' =
     \<lparr>ws_port = port', ws_title = ''Wallet service'', ws_withPipes = withPipes',
      ws_allowedOrigin = allowedOrigin',
      m_withAssets = withAssets', m_nodeAddr = nodeAddr, m_walletMap = Map.empty\<rparr>"

text \<open>Lines 60 to 63: \<open>std::make_shared<ServiceClient>(_withAssets, _nodeAddr, wsSend,
  _walletMap)\<close>, for the server \<open>this\<close> that lives at \<open>this_ref\<close>.\<close>

definition ReactorThread_onNewWSClient :: "ref \<Rightarrow> WalletService \<Rightarrow> SendFunc \<Rightarrow> ServiceClient" where
  "ReactorThread_onNewWSClient this_ref this wsSend =
     \<lparr>sc_withAssets = m_withAssets this, sc_nodeAddr = m_nodeAddr this,
      sc_wsSend = wsSend, sc_walletMap = this_ref\<rparr>"

text \<open>
  Modelled from the spec: the connection multiplexer is the base class
  \<open>WebSocketServer\<close>, declared outside service.cpp. The spec (4.2, 3): on each accepted
  connection it asks for one handler, giving the send function of that connection; on
  close it destroys the handler and leaves the registry alone; a handler reads and
  updates the registry through its reference.
\<close>

record world =
  objects :: "ref \<rightharpoonup> WalletService"
  handlers :: "ServiceClient list"

datatype connection_event =
    Accepted SendFunc
  | Closed nat
  | Handled nat "WalletMap \<Rightarrow> WalletMap"

fun on_connection_event :: "ref \<Rightarrow> world \<Rightarrow> connection_event \<Rightarrow> world" where
  "on_connection_event srv w (Accepted wsSend) =
     (case objects w srv of
        None \<Rightarrow> w
      | Some this \<Rightarrow> w\<lparr>handlers := handlers w @ [ReactorThread_onNewWSClient srv this wsSend]\<rparr>)"
| "on_connection_event srv w (Closed i) =
     w\<lparr>handlers := take i (handlers w) @ drop (Suc i) (handlers w)\<rparr>"
| "on_connection_event srv w (Handled i f) =
     (if i < length (handlers w)
      then (case objects w (sc_walletMap (handlers w ! i)) of
              None \<Rightarrow> w
            | Some s \<Rightarrow>
                w\<lparr>objects := (objects w)(sc_walletMap (handlers w ! i) \<mapsto>
                                 s\<lparr>m_walletMap := f (m_walletMap s)\<rparr>)\<rparr>)
      else w)"

definition serve_connections :: "ref \<Rightarrow> world \<Rightarrow> connection_event list \<Rightarrow> world" where
  "serve_connections srv w evs = foldl (on_connection_event srv) w evs"

text \<open>The registry a reference designates, while the server that owns it is alive.\<close>

definition registry :: "world \<Rightarrow> ref \<Rightarrow> WalletMap option" where
  "registry w r = map_option m_walletMap (objects w r)"

text \<open>The store right after line 168 built the server at \<open>srv\<close>: no handler yet.\<close>

definition server_started ::
  "ref \<Rightarrow> bool \<Rightarrow> io_Address \<Rightarrow> 16 word \<Rightarrow> string \<Rightarrow> bool \<Rightarrow> world" where
  "server_started srv withAssets' nodeAddr port' allowedOrigin' withPipes' =
     \<lparr>objects = [srv \<mapsto> WalletService_new withAssets' nodeAddr port' allowedOrigin' withPipes'],
      handlers = []\<rparr>"

subsection \<open>Concrete environments\<close>

text \<open>A start that succeeds: \<open>wallet-service --node_addr 127.0.0.1:10000\<close>.\<close>

definition beam_cli :: cli_names where
  "beam_cli =
     \<lparr>HELP = ''help'', HELP_FULL = ''help,h'', PORT_FULL = ''port,p'',
      NODE_ADDR = ''node_addr'', NODE_ADDR_FULL = ''node_addr,n'',
      ALLOWED_ORIGIN = ''allowed_origin'', LOG_CLEANUP_DAYS = ''log_cleanup_days'',
      NODE_POLL_PERIOD = ''node_poll_period'', WITH_SYNC_PIPES = ''sync_pipes'',
      WITH_ASSETS = ''enable_assets''\<rparr>"

definition vm_defaults :: variables_map where
  "vm_defaults =
     [''port'' \<mapsto> any_uint16 8080, ''allowed_origin'' \<mapsto> any_string '''',
      ''log_cleanup_days'' \<mapsto> any_uint32 5, ''node_poll_period'' \<mapsto> any_uint32 0,
      ''sync_pipes'' \<mapsto> any_bool False, ''enable_assets'' \<mapsto> any_bool False]"

definition vm_ok :: variables_map where
  "vm_ok = vm_defaults(''node_addr'' \<mapsto> any_string ''127.0.0.1:10000'')"

definition options_ok :: options where
  "options_ok =
     \<lparr>port = 8080, nodeURI = ''127.0.0.1:10000'', pollPeriod_ms = 0, logCleanupPeriod = 5,
      allowedOrigin = '''', withPipes = False, withAssets = False\<rparr>"

definition env_ok :: env where
  "env_ok =
     \<lparr>cli = beam_cli,
      argv = [''wallet-service'', ''--node_addr'', ''127.0.0.1:10000''],
      system_complete = (\<lambda>d. Inr (''/srv/'' @ d)),
      getCurrentPID_to_string = ''4242'',
      Logger_create = (\<lambda>_ _. Inr ()),
      activateCrashLog = Inr (),
      createRulesOptionsDescription = [],
      store_command_line = (\<lambda>_ _. Inr vm_ok),
      ReadCfgFromFileCommon = (\<lambda>vm _. Inr vm),
      ReadCfgFromFile = (\<lambda>vm _ _. Inr vm),
      notify = (\<lambda>_. Inr options_ok),
      days2sec = (\<lambda>days. 60 * 60 * 24 * days),
      clean_old_logfiles = (\<lambda>_ _ _. Inr ()),
      getRulesOptions = (\<lambda>_. Inr ()),
      UpdateChecksum = Inr (),
      PROJECT_VERSION = ''1.0.0'',
      BRANCH_NAME = ''master'',
      get_SignatureStr = ''ed91a717313c6eb0'',
      current_path = ''/srv'',
      NDEBUG = True,
      resolve = (\<lambda>uri. if uri = ''127.0.0.1:10000'' then Some 1 else None),
      SafeReactor_create = Inr (),
      Reactor_Scope = Inr (),
      GracefulIntHandler = Inr (),
      sec2readable = (\<lambda>_. ''12 hours''),
      LogRotation = (\<lambda>_ _. Inr ()),
      WalletService_ctor = (\<lambda>_ _ _ _ _. Inr ()),
      run = Returns\<rparr>"

text \<open>\<open>wallet-service --node_addr 127.0.0.1:10000 --bogus\<close>: the parser throws.\<close>

definition env_unrecognised_option :: env where
  "env_unrecognised_option =
     env_ok\<lparr>argv := [''wallet-service'', ''--node_addr'', ''127.0.0.1:10000'', ''--bogus''],
            store_command_line := (\<lambda>_ _. Inl (std_exception ''unrecognised option --bogus''))\<rparr>"

text \<open>\<open>wallet-service --help\<close>.\<close>

definition env_help_requested :: env where
  "env_help_requested =
     env_ok\<lparr>argv := [''wallet-service'', ''--help''],
            store_command_line := (\<lambda>_ _. Inr (vm_defaults(''help'' \<mapsto> any_empty)))\<rparr>"

text \<open>\<open>wallet-service\<close>, and no node address in the configuration files either.\<close>

definition env_no_node_addr :: env where
  "env_no_node_addr =
     env_ok\<lparr>argv := [''wallet-service''],
            store_command_line := (\<lambda>_ _. Inr vm_defaults),
            notify := (\<lambda>_. Inr (options_ok\<lparr>nodeURI := ''''\<rparr>))\<rparr>"

text \<open>\<open>wallet-service --node_addr nowhere.invalid:10000\<close>: the address does not resolve.\<close>

definition env_unresolvable :: env where
  "env_unresolvable =
     env_ok\<lparr>argv := [''wallet-service'', ''--node_addr'', ''nowhere.invalid:10000''],
            store_command_line :=
              (\<lambda>_ _. Inr (vm_defaults(''node_addr'' \<mapsto> any_string ''nowhere.invalid:10000''))),
            notify := (\<lambda>_. Inr (options_ok\<lparr>nodeURI := ''nowhere.invalid:10000''\<rparr>))\<rparr>"

text \<open>A start that succeeds, then something that is no \<open>std::exception\<close> escapes \<open>run()\<close>.\<close>

definition env_run_throws :: env where
  "env_run_throws = env_ok\<lparr>run := Throws non_std_exception\<rparr>"

text \<open>A start that succeeds, then an interrupt arrives while \<open>run()\<close> serves callbacks.\<close>

definition env_interrupted :: env where
  "env_interrupted = env_ok\<lparr>run := Reactor_run [Callback None, Callback None, Signal, Callback None]\<rparr>"

section \<open>Proofs\<close>

subsection \<open>Running main one statement at a time\<close>

lemma and_then_call:
  "and_then (call ev r) f tr =
     (case r of Inl e \<Rightarrow> (Throw e, tr @ [ev]) | Inr a \<Rightarrow> f a (tr @ [ev]))"
  by (simp add: and_then_def call_def split: sum.splits)

lemma and_then_emit: "and_then (emit ev) f tr = f () (tr @ [ev])"
  by (simp add: and_then_def emit_def)

lemma call_apply:
  "call ev r tr = (case r of Inl e \<Rightarrow> (Throw e, tr @ [ev]) | Inr a \<Rightarrow> (Next a, tr @ [ev]))"
  by (simp add: call_def)

lemmas run_main = main_def main_prologue_def main_try_def and_then_call and_then_emit call_apply
  emit_def return_from_main_def

lemma ensures_and_then_call:
  assumes "\<And>e. r = Inl e \<Longrightarrow> ensures Q (Throw e, tr @ [ev])"
    and "\<And>a. r = Inr a \<Longrightarrow> ensures Q (f a (tr @ [ev]))"
  shows "ensures Q (and_then (call ev r) f tr)"
  using assms by (cases r) (simp_all add: and_then_call)

lemma ensures_and_then_emit:
  assumes "ensures Q (f () (tr @ [ev]))"
  shows "ensures Q (and_then (emit ev) f tr)"
  using assms by (simp add: and_then_emit)

lemma ensures_call:
  assumes "\<And>e. r = Inl e \<Longrightarrow> ensures Q (Throw e, tr @ [ev])"
    and "\<And>a. r = Inr a \<Longrightarrow> ensures Q (Next a, tr @ [ev])"
  shows "ensures Q (call ev r tr)"
  using assms by (cases r) (simp_all add: call_def)

lemma ensures_emit:
  assumes "ensures Q (Next (), tr @ [ev])"
  shows "ensures Q (emit ev tr)"
  using assms by (simp add: emit_def)

lemma ensures_return_from_main:
  assumes "ensures Q (Leave (Exit rc), tr)"
  shows "ensures Q (return_from_main rc tr)"
  using assms by (simp add: return_from_main_def)

lemma ensures_if:
  assumes "c \<Longrightarrow> ensures Q (a tr)" and "\<not> c \<Longrightarrow> ensures Q (b tr)"
  shows "ensures Q ((if c then a else b) tr)"
  using assms by simp

lemma ensures_case_option:
  assumes "x = None \<Longrightarrow> ensures Q (a tr)" and "\<And>y. x = Some y \<Longrightarrow> ensures Q (b y tr)"
  shows "ensures Q ((case x of None \<Rightarrow> a | Some y \<Rightarrow> b y) tr)"
  using assms by (cases x) simp_all

lemma ensures_case_run_result:
  assumes "x = Returns \<Longrightarrow> ensures Q (a tr)"
    and "\<And>e. x = Throws e \<Longrightarrow> ensures Q (b e tr)"
    and "x = Never_returns \<Longrightarrow> ensures Q (c tr)"
  shows "ensures Q ((case x of Returns \<Rightarrow> a | Throws e \<Rightarrow> b e | Never_returns \<Rightarrow> c) tr)"
  using assms by (cases x) simp_all

lemmas ensures_intros =
  ensures_and_then_call ensures_and_then_emit ensures_call ensures_emit ensures_return_from_main
  ensures_if ensures_case_option ensures_case_run_result

lemma main_eq_finish:
  "main E =
     (case main_prologue E [] of
        (Throw e, tr) \<Rightarrow> (Terminate e, tr)
      | (Leave out, tr) \<Rightarrow> (out, tr)
      | (Next _, tr) \<Rightarrow> finish (main_try E tr))"
  by (simp add: main_def finish_def handler_message_def split: prod.splits flow.splits exn.splits)

lemma main_prologue_cases:
  "ensures (\<lambda>res.
      (\<exists>e. res = (Throw e, [Ev_system_complete LOG_FILES_DIR])) \<or>
      (\<exists>e path. res = (Throw e, [Ev_system_complete LOG_FILES_DIR,
          Ev_Logger_create (LOG_FILES_PREFIX @ getCurrentPID_to_string E @ ''_'') path])) \<or>
      (\<exists>fl path. (fl = Next () \<or> (\<exists>e. fl = Throw e)) \<and>
          res = (fl, [Ev_system_complete LOG_FILES_DIR,
          Ev_Logger_create (LOG_FILES_PREFIX @ getCurrentPID_to_string E @ ''_'') path,
          Ev_activateCrashLog])))
     (main_prologue E [])"
  unfolding main_prologue_def by (intro ensures_intros) (simp_all add: ensures_def)

lemma main_prologue_Next:
  assumes "main_prologue E [] = (Next (), tr)"
  shows "\<exists>path. tr = [Ev_system_complete LOG_FILES_DIR,
            Ev_Logger_create (LOG_FILES_PREFIX @ getCurrentPID_to_string E @ ''_'') path,
            Ev_activateCrashLog]"
  using main_prologue_cases [of E] assms by (auto simp: ensures_def)

lemma main_prologue_Throw:
  assumes "main_prologue E [] = (Throw e, tr)"
  shows "set tr \<subseteq> {Ev_system_complete LOG_FILES_DIR, Ev_activateCrashLog} \<union>
           {ev. \<exists>p path. ev = Ev_Logger_create p path}"
  using main_prologue_cases [of E] assms by (auto simp: ensures_def)

lemma ensures_main:
  assumes "\<And>e tr. main_prologue E [] = (Throw e, tr) \<Longrightarrow> Q (Terminate e, tr)"
    and "\<And>tr. main_prologue E [] = (Next (), tr) \<Longrightarrow>
           ensures (\<lambda>res. Q (finish res)) (main_try E tr)"
  shows "Q (main E)"
proof (cases "main_prologue E []")
  case (Pair fl tr)
  show ?thesis
  proof (cases fl)
    case (Next u)
    with Pair assms(2) [of tr] show ?thesis
      by (simp add: main_eq_finish ensures_def)
  next
    case (Leave out)
    with Pair main_prologue_cases [of E] show ?thesis
      by (auto simp: ensures_def)
  next
    case (Throw e)
    with Pair assms(1) [of e tr] show ?thesis
      by (simp add: main_eq_finish)
  qed
qed

subsection \<open>What holds whenever run() is entered\<close>

lemma main_run_entered:
  "Ev_run \<in> set (snd (main E)) \<longrightarrow>
     Ev_GracefulIntHandler \<in> set (takeWhile (\<lambda>ev. ev \<noteq> Ev_run) (snd (main E))) \<and>
     main E =
       (case run E of Returns \<Rightarrow> Exit 0 | Throws e \<Rightarrow> Exit 0 | Never_returns \<Rightarrow> Blocked,
        takeWhile (\<lambda>ev. ev \<noteq> Ev_run) (snd (main E)) @
        (case run E of
           Returns \<Rightarrow> [Ev_run, Ev_LOG_INFO [Txt ''Done'']]
         | Throws e \<Rightarrow> [Ev_run, Ev_LOG_ERROR (handler_message e)]
         | Never_returns \<Rightarrow> [Ev_run]))"
proof (rule ensures_main [where Q = "\<lambda>res. Ev_run \<in> set (snd res) \<longrightarrow>
     Ev_GracefulIntHandler \<in> set (takeWhile (\<lambda>ev. ev \<noteq> Ev_run) (snd res)) \<and>
     res =
       (case run E of Returns \<Rightarrow> Exit 0 | Throws e \<Rightarrow> Exit 0 | Never_returns \<Rightarrow> Blocked,
        takeWhile (\<lambda>ev. ev \<noteq> Ev_run) (snd res) @
        (case run E of
           Returns \<Rightarrow> [Ev_run, Ev_LOG_INFO [Txt ''Done'']]
         | Throws e \<Rightarrow> [Ev_run, Ev_LOG_ERROR (handler_message e)]
         | Never_returns \<Rightarrow> [Ev_run]))"])
  fix e tr
  assume "main_prologue E [] = (Throw e, tr)"
  from main_prologue_Throw [OF this] have "Ev_run \<notin> set tr" by auto
  then show "Ev_run \<in> set (snd (Terminate e, tr)) \<longrightarrow>
     Ev_GracefulIntHandler \<in> set (takeWhile (\<lambda>ev. ev \<noteq> Ev_run) (snd (Terminate e, tr))) \<and>
     (Terminate e, tr) =
       (case run E of Returns \<Rightarrow> Exit 0 | Throws e \<Rightarrow> Exit 0 | Never_returns \<Rightarrow> Blocked,
        takeWhile (\<lambda>ev. ev \<noteq> Ev_run) (snd (Terminate e, tr)) @
        (case run E of
           Returns \<Rightarrow> [Ev_run, Ev_LOG_INFO [Txt ''Done'']]
         | Throws e \<Rightarrow> [Ev_run, Ev_LOG_ERROR (handler_message e)]
         | Never_returns \<Rightarrow> [Ev_run]))"
    by simp
next
  fix tr
  assume "main_prologue E [] = (Next (), tr)"
  then obtain path where tr: "tr = [Ev_system_complete LOG_FILES_DIR,
        Ev_Logger_create (LOG_FILES_PREFIX @ getCurrentPID_to_string E @ ''_'') path,
        Ev_activateCrashLog]"
    using main_prologue_Next by blast
  show "ensures (\<lambda>res. Ev_run \<in> set (snd (finish res)) \<longrightarrow>
     Ev_GracefulIntHandler \<in> set (takeWhile (\<lambda>ev. ev \<noteq> Ev_run) (snd (finish res))) \<and>
     finish res =
       (case run E of Returns \<Rightarrow> Exit 0 | Throws e \<Rightarrow> Exit 0 | Never_returns \<Rightarrow> Blocked,
        takeWhile (\<lambda>ev. ev \<noteq> Ev_run) (snd (finish res)) @
        (case run E of
           Returns \<Rightarrow> [Ev_run, Ev_LOG_INFO [Txt ''Done'']]
         | Throws e \<Rightarrow> [Ev_run, Ev_LOG_ERROR (handler_message e)]
         | Never_returns \<Rightarrow> [Ev_run]))) (main_try E tr)"
    unfolding main_try_def tr
    by (intro ensures_intros) (simp_all add: ensures_def finish_def)
qed

lemma Reactor_run_Signal:
  assumes "\<forall>ev \<in> set before. ev = Callback None"
  shows "Reactor_run (before @ Signal # after) = Returns"
  using assms by (induction before) auto

subsection \<open>Evaluating the concrete environments\<close>

lemmas env_defs = env_ok_def beam_cli_def vm_ok_def vm_defaults_def options_ok_def
  LOG_FILES_DIR_def LOG_FILES_PREFIX_def count_vm_def

subsection \<open>C1: A parsing failure ends with status 0\<close>

text \<open>
  C1 (the code diverges from the claim). The claim: an input whose parsing fails, or
  that omits a mandatory value, aborts the start with a non-zero exit status before
  \<open>run()\<close> is entered. When \<open>po::store\<close> throws on the command line, the exception is
  caught by the handlers of lines 173 to 180, one error line is logged and \<open>main\<close>
  falls through to \<open>return 0\<close>: the reactor is never created and \<open>run()\<close> is never
  entered, but the exit status is 0. (The sibling path for a missing node address,
  lines 146 to 156, returns -1.)
\<close>

theorem parse_failure_exits_0:
  assumes "system_complete E LOG_FILES_DIR = Inr path"
    and "Logger_create E (LOG_FILES_PREFIX @ getCurrentPID_to_string E @ ''_'') path = Inr ()"
    and "activateCrashLog E = Inr ()"
    and "store_command_line E (argv E) (desc E) = Inl e"
  shows "main E =
           (Exit 0,
            [Ev_system_complete LOG_FILES_DIR,
             Ev_Logger_create (LOG_FILES_PREFIX @ getCurrentPID_to_string E @ ''_'') path,
             Ev_activateCrashLog,
             Ev_store_command_line (argv E),
             Ev_LOG_ERROR (handler_message e)])"
  using assms by (simp add: run_main handler_message_def split: exn.splits)

theorem parse_failure_exits_0_witness:
  "main env_unrecognised_option =
     (Exit 0,
      [Ev_system_complete ''logs'',
       Ev_Logger_create ''service_4242_'' ''/srv/logs'',
       Ev_activateCrashLog,
       Ev_store_command_line [''wallet-service'', ''--node_addr'', ''127.0.0.1:10000'', ''--bogus''],
       Ev_LOG_ERROR [Txt ''EXCEPTION: '', Txt ''unrecognised option --bogus'']])"
  using parse_failure_exits_0 [of env_unrecognised_option "''/srv/logs''"
      "std_exception ''unrecognised option --bogus''"]
  by (simp add: env_unrecognised_option_def env_defs handler_message_def)

subsection \<open>C2: A missing or unresolvable node address\<close>

text \<open>
  C2, as amended. \<open>main\<close> creates the reactor, builds the server or enters \<open>run()\<close> only
  when the command line and the configuration files parsed, help was not asked for,
  the node address is in the variables map and \<open>resolve\<close> succeeds on it: with the
  address absent or unresolvable no session work ever begins. And when help was not
  asked for and no statement before the checks of lines 146 to 156 throws, an absent
  or unresolvable node address makes \<open>main\<close> log the matching error line as its last
  effect and return -1.
\<close>

theorem node_addr_missing_or_unresolvable:
  "((Ev_SafeReactor_create \<in> set (snd (main E))
       \<or> (\<exists>a n p s w. Ev_WalletService a n p s w \<in> set (snd (main E)))
       \<or> Ev_run \<in> set (snd (main E)))
      \<longrightarrow> (\<exists>vm0 vm1 vm opts node_addr.
             store_command_line E (argv E) (desc E) = Inr vm0
           \<and> count_vm vm0 (HELP (cli E)) = 0
           \<and> ReadCfgFromFileCommon E vm0 (desc E) = Inr vm1
           \<and> ReadCfgFromFile E vm1 (desc E) ''wallet-api.cfg'' = Inr vm
           \<and> notify E vm = Inr opts
           \<and> count_vm vm (NODE_ADDR (cli E)) \<noteq> 0
           \<and> resolve E (nodeURI opts) = Some node_addr))
   \<and> (system_complete E LOG_FILES_DIR = Inr path
      \<and> Logger_create E (LOG_FILES_PREFIX @ getCurrentPID_to_string E @ ''_'') path = Inr ()
      \<and> activateCrashLog E = Inr ()
      \<and> store_command_line E (argv E) (desc E) = Inr vm0
      \<and> count_vm vm0 (HELP (cli E)) = 0
      \<and> ReadCfgFromFileCommon E vm0 (desc E) = Inr vm1
      \<and> ReadCfgFromFile E vm1 (desc E) ''wallet-api.cfg'' = Inr vm
      \<and> notify E vm = Inr opts
      \<and> clean_old_logfiles E LOG_FILES_DIR LOG_FILES_PREFIX
           (days2sec E (logCleanupPeriod opts)) = Inr ()
      \<and> getRulesOptions E vm = Inr ()
      \<and> UpdateChecksum E = Inr ()
      \<and> (count_vm vm (NODE_ADDR (cli E)) = 0 \<or> resolve E (nodeURI opts) = None)
      \<longrightarrow> fst (main E) = Exit (- 1)
        \<and> last (snd (main E)) =
            Ev_LOG_ERROR
              (if count_vm vm (NODE_ADDR (cli E)) = 0
               then [Txt ''node address should be specified'']
               else [Txt ''unable to resolve node address: `'', Txt (nodeURI opts), Txt ''`''])
        \<and> Ev_SafeReactor_create \<notin> set (snd (main E))
        \<and> (\<forall>a n p s w. Ev_WalletService a n p s w \<notin> set (snd (main E)))
        \<and> Ev_run \<notin> set (snd (main E)))"
proof (rule conjI)
  show "(Ev_SafeReactor_create \<in> set (snd (main E))
       \<or> (\<exists>a n p s w. Ev_WalletService a n p s w \<in> set (snd (main E)))
       \<or> Ev_run \<in> set (snd (main E)))
      \<longrightarrow> (\<exists>vm0 vm1 vm opts node_addr.
             store_command_line E (argv E) (desc E) = Inr vm0
           \<and> count_vm vm0 (HELP (cli E)) = 0
           \<and> ReadCfgFromFileCommon E vm0 (desc E) = Inr vm1
           \<and> ReadCfgFromFile E vm1 (desc E) ''wallet-api.cfg'' = Inr vm
           \<and> notify E vm = Inr opts
           \<and> count_vm vm (NODE_ADDR (cli E)) \<noteq> 0
           \<and> resolve E (nodeURI opts) = Some node_addr)"
  proof (rule ensures_main [where Q = "\<lambda>res. (Ev_SafeReactor_create \<in> set (snd res)
       \<or> (\<exists>a n p s w. Ev_WalletService a n p s w \<in> set (snd res))
       \<or> Ev_run \<in> set (snd res))
      \<longrightarrow> (\<exists>vm0 vm1 vm opts node_addr.
             store_command_line E (argv E) (desc E) = Inr vm0
           \<and> count_vm vm0 (HELP (cli E)) = 0
           \<and> ReadCfgFromFileCommon E vm0 (desc E) = Inr vm1
           \<and> ReadCfgFromFile E vm1 (desc E) ''wallet-api.cfg'' = Inr vm
           \<and> notify E vm = Inr opts
           \<and> count_vm vm (NODE_ADDR (cli E)) \<noteq> 0
           \<and> resolve E (nodeURI opts) = Some node_addr)"])
    fix e tr
    assume "main_prologue E [] = (Throw e, tr)"
    from main_prologue_Throw [OF this]
    show "(Ev_SafeReactor_create \<in> set (snd (Terminate e, tr))
       \<or> (\<exists>a n p s w. Ev_WalletService a n p s w \<in> set (snd (Terminate e, tr)))
       \<or> Ev_run \<in> set (snd (Terminate e, tr)))
      \<longrightarrow> (\<exists>vm0 vm1 vm opts node_addr.
             store_command_line E (argv E) (desc E) = Inr vm0
           \<and> count_vm vm0 (HELP (cli E)) = 0
           \<and> ReadCfgFromFileCommon E vm0 (desc E) = Inr vm1
           \<and> ReadCfgFromFile E vm1 (desc E) ''wallet-api.cfg'' = Inr vm
           \<and> notify E vm = Inr opts
           \<and> count_vm vm (NODE_ADDR (cli E)) \<noteq> 0
           \<and> resolve E (nodeURI opts) = Some node_addr)"
      by auto
  next
    fix tr
    assume "main_prologue E [] = (Next (), tr)"
    then obtain path where tr: "tr = [Ev_system_complete LOG_FILES_DIR,
        Ev_Logger_create (LOG_FILES_PREFIX @ getCurrentPID_to_string E @ ''_'') path,
        Ev_activateCrashLog]"
      using main_prologue_Next by blast
    show "ensures (\<lambda>res. (Ev_SafeReactor_create \<in> set (snd (finish res))
       \<or> (\<exists>a n p s w. Ev_WalletService a n p s w \<in> set (snd (finish res)))
       \<or> Ev_run \<in> set (snd (finish res)))
      \<longrightarrow> (\<exists>vm0 vm1 vm opts node_addr.
             store_command_line E (argv E) (desc E) = Inr vm0
           \<and> count_vm vm0 (HELP (cli E)) = 0
           \<and> ReadCfgFromFileCommon E vm0 (desc E) = Inr vm1
           \<and> ReadCfgFromFile E vm1 (desc E) ''wallet-api.cfg'' = Inr vm
           \<and> notify E vm = Inr opts
           \<and> count_vm vm (NODE_ADDR (cli E)) \<noteq> 0
           \<and> resolve E (nodeURI opts) = Some node_addr)) (main_try E tr)"
      unfolding main_try_def tr
      by (intro ensures_intros) (simp_all add: ensures_def finish_def)
  qed
next
  show "system_complete E LOG_FILES_DIR = Inr path
      \<and> Logger_create E (LOG_FILES_PREFIX @ getCurrentPID_to_string E @ ''_'') path = Inr ()
      \<and> activateCrashLog E = Inr ()
      \<and> store_command_line E (argv E) (desc E) = Inr vm0
      \<and> count_vm vm0 (HELP (cli E)) = 0
      \<and> ReadCfgFromFileCommon E vm0 (desc E) = Inr vm1
      \<and> ReadCfgFromFile E vm1 (desc E) ''wallet-api.cfg'' = Inr vm
      \<and> notify E vm = Inr opts
      \<and> clean_old_logfiles E LOG_FILES_DIR LOG_FILES_PREFIX
           (days2sec E (logCleanupPeriod opts)) = Inr ()
      \<and> getRulesOptions E vm = Inr ()
      \<and> UpdateChecksum E = Inr ()
      \<and> (count_vm vm (NODE_ADDR (cli E)) = 0 \<or> resolve E (nodeURI opts) = None)
      \<longrightarrow> fst (main E) = Exit (- 1)
        \<and> last (snd (main E)) =
            Ev_LOG_ERROR
              (if count_vm vm (NODE_ADDR (cli E)) = 0
               then [Txt ''node address should be specified'']
               else [Txt ''unable to resolve node address: `'', Txt (nodeURI opts), Txt ''`''])
        \<and> Ev_SafeReactor_create \<notin> set (snd (main E))
        \<and> (\<forall>a n p s w. Ev_WalletService a n p s w \<notin> set (snd (main E)))
        \<and> Ev_run \<notin> set (snd (main E))"
    by (auto simp add: run_main)
qed

theorem node_addr_missing_or_unresolvable_witness:
  "count_vm vm_defaults (NODE_ADDR (cli env_no_node_addr)) = 0
   \<and> fst (main env_no_node_addr) = Exit (- 1)
   \<and> last (snd (main env_no_node_addr)) = Ev_LOG_ERROR [Txt ''node address should be specified'']
   \<and> Ev_SafeReactor_create \<notin> set (snd (main env_no_node_addr))
   \<and> Ev_run \<notin> set (snd (main env_no_node_addr))
   \<and> resolve env_unresolvable ''nowhere.invalid:10000'' = None
   \<and> fst (main env_unresolvable) = Exit (- 1)
   \<and> last (snd (main env_unresolvable)) =
        Ev_LOG_ERROR [Txt ''unable to resolve node address: `'', Txt ''nowhere.invalid:10000'', Txt ''`'']
   \<and> Ev_SafeReactor_create \<notin> set (snd (main env_unresolvable))
   \<and> Ev_run \<notin> set (snd (main env_unresolvable))
   \<and> count_vm vm_ok (NODE_ADDR (cli env_ok)) = 1
   \<and> resolve env_ok (nodeURI options_ok) = Some 1
   \<and> Ev_SafeReactor_create \<in> set (snd (main env_ok))
   \<and> Ev_run \<in> set (snd (main env_ok))"
  using node_addr_missing_or_unresolvable [of env_no_node_addr "''/srv/logs''" vm_defaults
      vm_defaults vm_defaults "options_ok\<lparr>nodeURI := ''''\<rparr>"]
    node_addr_missing_or_unresolvable [of env_unresolvable "''/srv/logs''"
      "vm_defaults(''node_addr'' \<mapsto> any_string ''nowhere.invalid:10000'')"
      "vm_defaults(''node_addr'' \<mapsto> any_string ''nowhere.invalid:10000'')"
      "vm_defaults(''node_addr'' \<mapsto> any_string ''nowhere.invalid:10000'')"
      "options_ok\<lparr>nodeURI := ''nowhere.invalid:10000''\<rparr>"]
  by (simp add: run_main env_no_node_addr_def env_unresolvable_def env_defs)

text \<open>
  C2 as first worded (an absent node address always ends in an error line and a
  non-zero status) fails for \<open>wallet-service --help\<close>: the node address is absent from
  the command line and from the configuration files, the help test of line 122 comes
  first, and \<open>main\<close> prints the option description and returns 0 without logging an
  error.
\<close>

theorem node_addr_absent_with_help_counterexample:
  "store_command_line env_help_requested (argv env_help_requested) (desc env_help_requested) =
     Inr (vm_defaults(''help'' \<mapsto> any_empty))
   \<and> ReadCfgFromFileCommon env_help_requested (vm_defaults(''help'' \<mapsto> any_empty))
        (desc env_help_requested) = Inr (vm_defaults(''help'' \<mapsto> any_empty))
   \<and> ReadCfgFromFile env_help_requested (vm_defaults(''help'' \<mapsto> any_empty))
        (desc env_help_requested) ''wallet-api.cfg'' = Inr (vm_defaults(''help'' \<mapsto> any_empty))
   \<and> count_vm (vm_defaults(''help'' \<mapsto> any_empty)) (NODE_ADDR (cli env_help_requested)) = 0
   \<and> main env_help_requested =
       (Exit 0,
        [Ev_system_complete ''logs'',
         Ev_Logger_create ''service_4242_'' ''/srv/logs'',
         Ev_activateCrashLog,
         Ev_store_command_line [''wallet-service'', ''--help''],
         Ev_cout (desc env_help_requested)])"
  by (simp add: run_main env_help_requested_def env_defs)

subsection \<open>C3: Exceptions are caught and logged\<close>

text \<open>
  C3. Every exception that leaves the body of the try block, be it thrown by \<open>run()\<close>
  or by any statement before it, is caught by \<open>main\<close>: one error line for it is
  appended to the log, and \<open>main\<close> returns a status instead of letting the exception
  out.
\<close>

theorem exceptions_caught_and_logged:
  assumes "main_prologue E [] = (Next (), tr0)"
    and "main_try E tr0 = (Throw e, tr)"
  shows "(\<exists>rc. fst (main E) = Exit rc)
       \<and> (\<forall>e'. fst (main E) \<noteq> Terminate e')
       \<and> snd (main E) = tr @ [Ev_LOG_ERROR (handler_message e)]"
  using assms by (simp add: main_eq_finish finish_def)

theorem exceptions_caught_and_logged_witness:
  "run env_run_throws = Throws non_std_exception
   \<and> fst (main env_run_throws) = Exit 0
   \<and> last (snd (main env_run_throws)) = Ev_LOG_ERROR [Txt ''NON_STD EXCEPTION'']
   \<and> Ev_run \<in> set (snd (main env_run_throws))"
proof -
  have p: "main_prologue env_run_throws [] = (Next (), snd (main_prologue env_run_throws []))"
    by (simp add: run_main env_run_throws_def env_defs)
  have t: "main_try env_run_throws (snd (main_prologue env_run_throws [])) =
             (Throw non_std_exception, snd (main_try env_run_throws (snd (main_prologue env_run_throws []))))"
    by (simp add: run_main env_run_throws_def env_defs)
  from exceptions_caught_and_logged [OF p t] show ?thesis
    by (simp add: run_main env_run_throws_def env_defs handler_message_def)
qed

subsection \<open>C4: The help option\<close>

text \<open>
  C4. When the command line parses and the variables map holds the help option,
  \<open>main\<close> prints the option description and returns 0 right away: nothing else happens
  after the parse, the reactor is not created and \<open>run()\<close> is not entered.
\<close>

theorem help_prints_description_and_exits_0:
  assumes "system_complete E LOG_FILES_DIR = Inr path"
    and "Logger_create E (LOG_FILES_PREFIX @ getCurrentPID_to_string E @ ''_'') path = Inr ()"
    and "activateCrashLog E = Inr ()"
    and "store_command_line E (argv E) (desc E) = Inr vm"
    and "count_vm vm (HELP (cli E)) \<noteq> 0"
  shows "main E =
           (Exit 0,
            [Ev_system_complete LOG_FILES_DIR,
             Ev_Logger_create (LOG_FILES_PREFIX @ getCurrentPID_to_string E @ ''_'') path,
             Ev_activateCrashLog,
             Ev_store_command_line (argv E),
             Ev_cout (desc E)])
       \<and> Ev_SafeReactor_create \<notin> set (snd (main E))
       \<and> Ev_run \<notin> set (snd (main E))"
  using assms by (simp add: run_main)

theorem help_prints_description_and_exits_0_witness:
  "count_vm (vm_defaults(''help'' \<mapsto> any_empty)) (HELP (cli env_help_requested)) = 1
   \<and> fst (main env_help_requested) = Exit 0
   \<and> last (snd (main env_help_requested)) = Ev_cout (desc env_help_requested)
   \<and> Ev_run \<notin> set (snd (main env_help_requested))"
  using help_prints_description_and_exits_0 [of env_help_requested "''/srv/logs''"
      "vm_defaults(''help'' \<mapsto> any_empty)"]
  by (simp add: env_help_requested_def env_defs)

subsection \<open>C5: One handler per accepted connection\<close>

lemma serve_connections_Cons:
  "serve_connections srv w (ev # evs) = serve_connections srv (on_connection_event srv w ev) evs"
  by (simp add: serve_connections_def)

lemma accepted_sequence:
  assumes "objects w srv = Some this"
  shows "serve_connections srv w (map Accepted sends) =
           w\<lparr>handlers := handlers w @ map (ReactorThread_onNewWSClient srv this) sends\<rparr>"
  using assms
proof (induction sends arbitrary: w)
  case Nil
  then show ?case by (simp add: serve_connections_def)
next
  case (Cons s sends)
  have "objects (on_connection_event srv w (Accepted s)) srv = Some this"
    using Cons.prems by simp
  from Cons.IH [OF this] Cons.prems show ?case
    by (simp add: serve_connections_Cons)
qed

text \<open>
  C5. For each accepted connection the server that lives at \<open>srv\<close> adds exactly one
  handler: the \<open>ServiceClient\<close> that \<open>ReactorThread_onNewWSClient\<close> builds from the
  server's flag and node address, the send function of that connection, and the
  reference to the server's own wallet map. A run of accepted connections adds one
  handler each, in order, and leaves the server object as it was.
\<close>

theorem one_handler_per_accepted_connection:
  assumes "objects w srv = Some this"
  shows "on_connection_event srv w (Accepted wsSend) =
           w\<lparr>handlers := handlers w @
                [\<lparr>sc_withAssets = m_withAssets this, sc_nodeAddr = m_nodeAddr this,
                  sc_wsSend = wsSend, sc_walletMap = srv\<rparr>]\<rparr>
       \<and> handlers (serve_connections srv w (map Accepted sends)) =
           handlers w @
           map (\<lambda>s. \<lparr>sc_withAssets = m_withAssets this, sc_nodeAddr = m_nodeAddr this,
                      sc_wsSend = s, sc_walletMap = srv\<rparr>) sends
       \<and> length (handlers (serve_connections srv w (map Accepted sends))) =
           length (handlers w) + length sends
       \<and> objects (serve_connections srv w (map Accepted sends)) = objects w"
  using assms accepted_sequence [OF assms, of sends]
  by (simp add: ReactorThread_onNewWSClient_def)

theorem one_handler_per_accepted_connection_witness:
  "handlers (serve_connections 0 (server_started 0 True 1 8080 '''' False) (map Accepted [11, 12])) =
     [\<lparr>sc_withAssets = True, sc_nodeAddr = 1, sc_wsSend = 11, sc_walletMap = 0\<rparr>,
      \<lparr>sc_withAssets = True, sc_nodeAddr = 1, sc_wsSend = 12, sc_walletMap = 0\<rparr>]"
  using one_handler_per_accepted_connection [of "server_started 0 True 1 8080 '''' False" 0
      "WalletService_new True 1 8080 '''' False" 0 "[11, 12]"]
  by (simp add: server_started_def WalletService_new_def)

subsection \<open>C6: One registry, owned by the server\<close>

lemma serve_connections_snoc:
  "serve_connections srv w (evs @ [ev]) = on_connection_event srv (serve_connections srv w evs) ev"
  by (simp add: serve_connections_def)

lemma registry_invariant_step:
  assumes "\<forall>c \<in> set (handlers w). sc_walletMap c = srv" and "objects w srv = Some s"
  shows "(\<forall>c \<in> set (handlers (on_connection_event srv w ev)). sc_walletMap c = srv)
       \<and> (\<exists>s'. objects (on_connection_event srv w ev) srv = Some s')"
proof (cases ev)
  case (Accepted wsSend)
  with assms show ?thesis by (simp add: ReactorThread_onNewWSClient_def)
next
  case (Closed i)
  with assms show ?thesis
    by (auto dest: in_set_takeD in_set_dropD)
next
  case (Handled i f)
  with assms show ?thesis by (auto split: option.splits)
qed

lemma registry_invariant:
  assumes "\<forall>c \<in> set (handlers w). sc_walletMap c = srv" and "objects w srv = Some s"
  shows "(\<forall>c \<in> set (handlers (serve_connections srv w evs)). sc_walletMap c = srv)
       \<and> (\<exists>s'. objects (serve_connections srv w evs) srv = Some s')"
proof (induction evs rule: rev_induct)
  case Nil
  with assms show ?case by (simp add: serve_connections_def)
next
  case (snoc ev evs)
  then obtain s' where
    "\<forall>c \<in> set (handlers (serve_connections srv w evs)). sc_walletMap c = srv"
    "objects (serve_connections srv w evs) srv = Some s'"
    by blast
  from registry_invariant_step [OF this] show ?case
    by (simp add: serve_connections_snoc)
qed

text \<open>
  C6. Whatever connections are accepted, served and closed after the server was built,
  every live handler refers to the wallet map of that one server object; the map is
  still there; accepting a connection or closing one leaves it unchanged; and what a
  handler wrote into it is still there after that handler is destroyed.
\<close>

theorem shared_registry_outlives_handlers:
  assumes "w = serve_connections srv
                 (server_started srv withAssets' nodeAddr port' allowedOrigin' withPipes') evs"
  shows "(\<forall>c \<in> set (handlers w). sc_walletMap c = srv)
       \<and> (\<exists>m. registry w srv = Some m)
       \<and> (\<forall>wsSend. registry (on_connection_event srv w (Accepted wsSend)) srv = registry w srv)
       \<and> (\<forall>i. registry (on_connection_event srv w (Closed i)) srv = registry w srv)
       \<and> (\<forall>i f. i < length (handlers w) \<longrightarrow>
             registry (on_connection_event srv (on_connection_event srv w (Handled i f)) (Closed i)) srv
               = map_option f (registry w srv))"
proof -
  have inv: "(\<forall>c \<in> set (handlers w). sc_walletMap c = srv) \<and> (\<exists>s. objects w srv = Some s)"
    unfolding assms
    by (rule registry_invariant [where s = "WalletService_new withAssets' nodeAddr port' allowedOrigin' withPipes'"])
      (simp_all add: server_started_def)
  then obtain s where s: "objects w srv = Some s" by blast
  have "\<forall>i f. i < length (handlers w) \<longrightarrow>
             registry (on_connection_event srv (on_connection_event srv w (Handled i f)) (Closed i)) srv
               = map_option f (registry w srv)"
    using inv s by (auto simp: registry_def)
  with inv s show ?thesis
    by (auto simp: registry_def split: option.splits)
qed

theorem shared_registry_outlives_handlers_witness:
  "map sc_walletMap (handlers (serve_connections 0 (server_started 0 True 1 8080 '''' False)
        [Accepted 11, Handled 0 (\<lambda>m. m(''alice'' \<mapsto> 7)), Accepted 12, Closed 0])) = [0]
   \<and> map_option (\<lambda>m. m ''alice'') (registry (serve_connections 0 (server_started 0 True 1 8080 '''' False)
        [Accepted 11, Handled 0 (\<lambda>m. m(''alice'' \<mapsto> 7)), Accepted 12, Closed 0]) 0) = Some (Some 7)"
  using shared_registry_outlives_handlers [OF refl, of 0 True 1 8080 "''''" False
      "[Accepted 11, Handled 0 (\<lambda>m. m(''alice'' \<mapsto> 7)), Accepted 12, Closed 0]"]
  by (simp add: serve_connections_def server_started_def WalletService_new_def registry_def
      ReactorThread_onNewWSClient_def)

subsection \<open>C7: The poll period is never read\<close>

lemma desc_with_pollPeriod_ms: "desc (with_pollPeriod_ms p E) = desc E"
  by (simp add: desc_def with_pollPeriod_ms_def)

lemma main_prologue_with_pollPeriod_ms:
  "main_prologue (with_pollPeriod_ms p E) = main_prologue E"
  by (simp add: main_prologue_def with_pollPeriod_ms_def)

lemma and_then_call_map:
  "and_then (call ev (case r of Inl e \<Rightarrow> Inl e | Inr a \<Rightarrow> Inr (g a))) f =
   and_then (call ev r) (\<lambda>a. f (g a))"
  by (rule ext) (simp add: and_then_def call_def split: sum.splits)

lemma main_try_with_pollPeriod_ms:
  "main_try (with_pollPeriod_ms p E) = main_try E"
  unfolding main_try_def desc_with_pollPeriod_ms
  by (simp add: with_pollPeriod_ms_def and_then_call_map
      cong: if_cong option.case_cong run_result.case_cong)

text \<open>
  C7 (the code diverges from the claim). The claim: a configured node poll period under
  the block interval is raised to that interval before use, never silently ignored.
  \<open>main\<close> parses the value into \<open>options.pollPeriod_ms\<close> and never reads it: whatever
  value was parsed, \<open>main\<close> makes the same calls with the same arguments, logs the same
  lines and ends the same way. The help line of the option (line 108) promises the
  rounding.
\<close>

theorem main_ignores_pollPeriod_ms: "main (with_pollPeriod_ms p E) = main E"
  unfolding main_def main_try_with_pollPeriod_ms main_prologue_with_pollPeriod_ms
  by (rule refl)

subsection \<open>C8: Shutdown on a signal\<close>

text \<open>
  C8. Whenever \<open>main\<close> enters \<open>run()\<close>, the \<open>GracefulIntHandler\<close> was installed before. If
  then a signal reaches the loop while it is still running (only callbacks that
  returned came before it), \<open>run()\<close> returns, \<open>main\<close> logs \<open>Done\<close> and returns 0.
\<close>

theorem signal_during_run_exits_0:
  assumes "Ev_run \<in> set (snd (main E))"
    and "run E = Reactor_run (before @ Signal # after)"
    and "\<forall>ev \<in> set before. ev = Callback None"
  shows "Ev_GracefulIntHandler \<in> set (takeWhile (\<lambda>ev. ev \<noteq> Ev_run) (snd (main E)))
       \<and> run E = Returns
       \<and> dropWhile (\<lambda>ev. ev \<noteq> Ev_run) (snd (main E)) = [Ev_run, Ev_LOG_INFO [Txt ''Done'']]
       \<and> fst (main E) = Exit 0"
proof -
  from assms(2,3) have r: "run E = Returns"
    by (simp add: Reactor_run_Signal)
  from main_run_entered [of E] assms(1) r
  have h: "Ev_GracefulIntHandler \<in> set (takeWhile (\<lambda>ev. ev \<noteq> Ev_run) (snd (main E)))"
    and m: "main E = (Exit 0, takeWhile (\<lambda>ev. ev \<noteq> Ev_run) (snd (main E)) @
                               [Ev_run, Ev_LOG_INFO [Txt ''Done'']])"
    by simp_all
  from m have s: "snd (main E) = takeWhile (\<lambda>ev. ev \<noteq> Ev_run) (snd (main E)) @
                               [Ev_run, Ev_LOG_INFO [Txt ''Done'']]"
    by (metis snd_conv)
  have "dropWhile (\<lambda>ev. ev \<noteq> Ev_run) (snd (main E)) = [Ev_run, Ev_LOG_INFO [Txt ''Done'']]"
    using takeWhile_dropWhile_id [of "\<lambda>ev. ev \<noteq> Ev_run" "snd (main E)"] s
    by (metis same_append_eq)
  with h r m show ?thesis by (metis fst_conv)
qed

theorem signal_during_run_exits_0_witness:
  "run env_interrupted = Reactor_run ([Callback None, Callback None] @ Signal # [Callback None])
   \<and> Ev_run \<in> set (snd (main env_interrupted))
   \<and> Ev_GracefulIntHandler \<in> set (takeWhile (\<lambda>ev. ev \<noteq> Ev_run) (snd (main env_interrupted)))
   \<and> dropWhile (\<lambda>ev. ev \<noteq> Ev_run) (snd (main env_interrupted)) = [Ev_run, Ev_LOG_INFO [Txt ''Done'']]
   \<and> fst (main env_interrupted) = Exit 0"
proof -
  have a: "Ev_run \<in> set (snd (main env_interrupted))"
    by (simp add: run_main env_interrupted_def env_defs)
  have b: "run env_interrupted = Reactor_run ([Callback None, Callback None] @ Signal # [Callback None])"
    by (simp add: env_interrupted_def env_defs)
  have c: "\<forall>ev \<in> set [Callback None, Callback None]. ev = Callback None"
    by simp
  from signal_during_run_exits_0 [OF a b c] a b show ?thesis by simp
qed

subsection \<open>C9: A caught exception ends with status 0\<close>

text \<open>
  C9. For every exception the handlers of \<open>main\<close> catch, whichever statement of the try
  block threw it (the option parser, the configuration files, \<open>run()\<close>, ...), \<open>main\<close>
  returns 0.
\<close>

theorem caught_exception_exits_0:
  assumes "main_prologue E [] = (Next (), tr0)"
    and "main_try E tr0 = (Throw e, tr)"
  shows "fst (main E) = Exit 0"
  using assms by (simp add: main_eq_finish finish_def)

theorem caught_exception_exits_0_witness:
  "store_command_line env_unrecognised_option (argv env_unrecognised_option)
       (desc env_unrecognised_option) = Inl (std_exception ''unrecognised option --bogus'')
   \<and> fst (main env_unrecognised_option) = Exit 0
   \<and> fst (main env_run_throws) = Exit 0"
proof -
  have p: "main_prologue env_unrecognised_option [] =
             (Next (), snd (main_prologue env_unrecognised_option []))"
    by (simp add: run_main env_unrecognised_option_def env_defs)
  have t: "main_try env_unrecognised_option (snd (main_prologue env_unrecognised_option [])) =
             (Throw (std_exception ''unrecognised option --bogus''),
              snd (main_try env_unrecognised_option (snd (main_prologue env_unrecognised_option []))))"
    by (simp add: run_main env_unrecognised_option_def env_defs)
  have p': "main_prologue env_run_throws [] = (Next (), snd (main_prologue env_run_throws []))"
    by (simp add: run_main env_run_throws_def env_defs)
  have t': "main_try env_run_throws (snd (main_prologue env_run_throws [])) =
             (Throw non_std_exception, snd (main_try env_run_throws (snd (main_prologue env_run_throws []))))"
    by (simp add: run_main env_run_throws_def env_defs)
  from caught_exception_exits_0 [OF p t] caught_exception_exits_0 [OF p' t'] show ?thesis
    by (simp add: env_unrecognised_option_def env_defs)
qed

subsection \<open>C10: Log rotation and retention periods\<close>

text \<open>
  C10. The rotation period is the constant 12 * 60 * 60 = 43200 seconds, whatever the
  options say; the retention period is the option \<open>LOG_CLEANUP_DAYS\<close>, an unsigned
  number of days with default 5; and every call of \<open>clean_old_logfiles\<close> and every
  \<open>LogRotation\<close> that \<open>main\<close> makes gets the same retention value,
  \<open>days2sec(options.logCleanupPeriod)\<close>, of the options as \<open>vm.notify()\<close> left them.
\<close>

theorem log_rotation_and_retention_periods:
  assumes "store_command_line E (argv E) (desc E) = Inr vm0"
    and "ReadCfgFromFileCommon E vm0 (desc E) = Inr vm1"
    and "ReadCfgFromFile E vm1 (desc E) ''wallet-api.cfg'' = Inr vm"
    and "notify E vm = Inr opts"
  shows "unat LOG_ROTATION_PERIOD_SEC = 12 * 60 * 60
       \<and> \<lparr>long_name = LOG_CLEANUP_DAYS (cli E), semantic = typed_uint32 (Some 5),
           description = ''old logfiles cleanup period(days)''\<rparr> \<in> set (desc E)
       \<and> (\<forall>ev \<in> set (snd (main E)).
            (\<forall>d p s. ev = Ev_clean_old_logfiles d p s \<longrightarrow>
               d = LOG_FILES_DIR \<and> p = LOG_FILES_PREFIX \<and> s = days2sec E (logCleanupPeriod opts))
          \<and> (\<forall>r c. ev = Ev_LogRotation r c \<longrightarrow>
               r = 43200 \<and> c = days2sec E (logCleanupPeriod opts)))"
proof (intro conjI)
  show "unat LOG_ROTATION_PERIOD_SEC = 12 * 60 * 60"
    by (simp add: LOG_ROTATION_PERIOD_SEC_def)
  show "\<lparr>long_name = LOG_CLEANUP_DAYS (cli E), semantic = typed_uint32 (Some 5),
          description = ''old logfiles cleanup period(days)''\<rparr> \<in> set (desc E)"
    by (simp add: desc_def)
  show "\<forall>ev \<in> set (snd (main E)).
            (\<forall>d p s. ev = Ev_clean_old_logfiles d p s \<longrightarrow>
               d = LOG_FILES_DIR \<and> p = LOG_FILES_PREFIX \<and> s = days2sec E (logCleanupPeriod opts))
          \<and> (\<forall>r c. ev = Ev_LogRotation r c \<longrightarrow>
               r = 43200 \<and> c = days2sec E (logCleanupPeriod opts))"
  proof (rule ensures_main [where Q = "\<lambda>res. \<forall>ev \<in> set (snd res).
            (\<forall>d p s. ev = Ev_clean_old_logfiles d p s \<longrightarrow>
               d = LOG_FILES_DIR \<and> p = LOG_FILES_PREFIX \<and> s = days2sec E (logCleanupPeriod opts))
          \<and> (\<forall>r c. ev = Ev_LogRotation r c \<longrightarrow>
               r = 43200 \<and> c = days2sec E (logCleanupPeriod opts))"])
    fix e tr
    assume "main_prologue E [] = (Throw e, tr)"
    from main_prologue_Throw [OF this]
    show "\<forall>ev \<in> set (snd (Terminate e, tr)).
            (\<forall>d p s. ev = Ev_clean_old_logfiles d p s \<longrightarrow>
               d = LOG_FILES_DIR \<and> p = LOG_FILES_PREFIX \<and> s = days2sec E (logCleanupPeriod opts))
          \<and> (\<forall>r c. ev = Ev_LogRotation r c \<longrightarrow>
               r = 43200 \<and> c = days2sec E (logCleanupPeriod opts))"
      by auto
  next
    fix tr
    assume "main_prologue E [] = (Next (), tr)"
    then obtain path where tr: "tr = [Ev_system_complete LOG_FILES_DIR,
        Ev_Logger_create (LOG_FILES_PREFIX @ getCurrentPID_to_string E @ ''_'') path,
        Ev_activateCrashLog]"
      using main_prologue_Next by blast
    show "ensures (\<lambda>res. \<forall>ev \<in> set (snd (finish res)).
            (\<forall>d p s. ev = Ev_clean_old_logfiles d p s \<longrightarrow>
               d = LOG_FILES_DIR \<and> p = LOG_FILES_PREFIX \<and> s = days2sec E (logCleanupPeriod opts))
          \<and> (\<forall>r c. ev = Ev_LogRotation r c \<longrightarrow>
               r = 43200 \<and> c = days2sec E (logCleanupPeriod opts))) (main_try E tr)"
      unfolding main_try_def tr
      by (intro ensures_intros)
        (use assms in \<open>simp_all add: ensures_def finish_def LOG_ROTATION_PERIOD_SEC_def\<close>)
  qed
qed

theorem log_rotation_and_retention_periods_witness:
  "notify env_ok vm_ok = Inr options_ok
   \<and> logCleanupPeriod options_ok = 5
   \<and> days2sec env_ok (logCleanupPeriod options_ok) = 432000
   \<and> Ev_clean_old_logfiles ''logs'' ''service_'' 432000 \<in> set (snd (main env_ok))
   \<and> Ev_LogRotation 43200 432000 \<in> set (snd (main env_ok))"
  using log_rotation_and_retention_periods [of env_ok vm_ok vm_ok vm_ok options_ok]
  by (simp add: run_main env_defs LOG_ROTATION_PERIOD_SEC_def)

end
